theory Spec2Isabelle
  imports Main
begin

section \<open>Data model of the inventory service\<close>

text \<open>
  The embedding follows \<^verbatim>\<open>src/modules/inventory/inventory.service.ts\<close> and the
  schema \<^verbatim>\<open>inventory-item.schema\<close>. Quantities are the numbers the service adds and
  compares; they are modelled as unbounded integers. An ObjectId is identified with the
  string its \<^verbatim>\<open>toString()\<close> gives, and the timestamps are the milliseconds of
  \<^verbatim>\<open>Date.now()\<close>.
\<close>

record history_entry =
  h_operation :: string
  h_quantity :: int
  h_reason :: "string option"
  h_referenceId :: "string option"
  h_timestamp :: int

text \<open>The class \<^verbatim>\<open>InventoryItem\<close> of the schema, with the document's \<^verbatim>\<open>_id\<close>.\<close>

record inventory_item =
  i_id :: string
  i_productId :: string
  i_warehouseId :: string
  quantity :: int
  reserved :: int
  lowStockThreshold :: int
  isActive :: bool
  history :: "history_entry list"
  lastUpdated :: int

text \<open>The fields \<^verbatim>\<open>updateStock\<close> destructures from its \<^verbatim>\<open>UpdateStockDto\<close>.\<close>

record update_stock_dto =
  u_productId :: string
  u_warehouseId :: string
  u_quantity :: int
  operation :: string
  reason :: "string option"
  referenceId :: "string option"

text \<open>
  The audit document \<^verbatim>\<open>updateStock\<close> builds and saves (lines 143 to 155). It is built
  through the \<^verbatim>\<open>constructor\<close> property of the injected model; what that property
  yields is the model library's business, so whether the save resolves is left to the
  environment (the call \<open>StockUpdateSave\<close>).
\<close>

record stock_update =
  su_productId :: string
  su_warehouseId :: string
  su_operation :: string
  su_quantity :: int
  newQuantity :: int
  newReserved :: int
  su_reason :: "string option"
  su_referenceId :: "string option"
  su_timestamp :: int

text \<open>The fields \<^verbatim>\<open>reserveStock\<close> destructures from its \<^verbatim>\<open>ReserveStockDto\<close>.\<close>

record reserve_stock_dto =
  r_productId :: string
  r_quantity :: int
  r_warehouseId :: string
  ttlSeconds :: "int option"

text \<open>
  The reservation document as \<^verbatim>\<open>reserveStock\<close> builds it (lines 209 to 215). The
  status is the string the service writes and compares.
\<close>

record stock_reservation =
  sr_id :: string
  sr_productId :: string
  sr_quantity :: int
  sr_warehouseId :: string
  expiresAt :: int
  status :: string

record low_stock_event =
  e_productId :: string
  e_warehouseId :: string
  availableStock :: int
  threshold :: int

record queue_job =
  j_productId :: string
  j_warehouseId :: string
  j_operation :: string
  j_quantity :: int
  j_timestamp :: int

record cache_entry =
  ce_value :: int
  ce_ttl :: int
  ce_storedAt :: int

text \<open>
  Every call the service makes on one of its injected collaborators. The same value
  names the call in the call log of the state and in the fault predicate of the
  environment.
\<close>

datatype call =
    CacheGet string
  | CacheSet string int int
  | CacheDel string
  | Aggregate string "string option"
  | StartSession
  | FindOneAndUpsert string string
  | FindOneAndUpdateById string
  | StockUpdateSave
  | Emit low_stock_event
  | QueueAdd queue_job
  | CommitTransaction
  | AbortTransaction
  | EndSession
  | ReservationSave string
  | FindById string
  | SetTimeout string int

text \<open>
  A thrown \<^verbatim>\<open>Error\<close> is its message; the message of the pre-check of
  \<^verbatim>\<open>reserveStock\<close>, which interpolates two numbers, is \<open>InsufficientStock\<close>; a
  rejected call on a collaborator is \<open>IOFailure\<close>; reading a property of
  \<^verbatim>\<open>null\<close> is \<open>TypeError\<close>.
\<close>

datatype error =
    Error string
  | InsufficientStock int int
  | IOFailure call
  | TypeError

text \<open>
  What one invocation takes from outside: which calls on the collaborators reject, the
  clock, and the ObjectIds the driver gives to a new item and a new reservation.
\<close>

record env =
  fails :: "call \<Rightarrow> bool"
  now :: int
  itemObjectId :: string
  reservationObjectId :: string

text \<open>
  The stores the service works on: the committed inventory items, the saved audit
  documents, the reservations, the cache, and the log of the calls made so far.
\<close>

record state =
  items :: "inventory_item list"
  stockUpdates :: "stock_update list"
  reservations :: "stock_reservation list"
  cache :: "string \<rightharpoonup> cache_entry"
  calls :: "call list"

definition record_call :: "call \<Rightarrow> state \<Rightarrow> state" where
  "record_call c s = s\<lparr>calls := calls s @ [c]\<rparr>"

definition CACHE_TTL :: int where
  "CACHE_TTL = 300"

definition RESERVATION_TTL :: int where
  "RESERVATION_TTL = 1800"

section \<open>The cache\<close>

text \<open>A string is truthy in JavaScript when it is not empty; \<^verbatim>\<open>undefined\<close> is not.\<close>

fun truthy :: "string option \<Rightarrow> bool" where
  "truthy None = False"
| "truthy (Some w) = (w \<noteq> [])"

text \<open>The template \<^verbatim>\<open>`stock:${productId}:${warehouseId || 'all'}`\<close>.\<close>

definition cacheKey :: "string \<Rightarrow> string option \<Rightarrow> string" where
  "cacheKey productId warehouseId =
     ''stock:'' @ productId @ '':'' @ (if truthy warehouseId then the warehouseId else ''all'')"

text \<open>
  The cache manager's \<^verbatim>\<open>get\<close>: an entry answers until its time-to-live has passed.
  The time-to-live is counted in seconds, as the comment on \<^verbatim>\<open>CACHE_TTL\<close> reads it.
\<close>

definition cacheLookup :: "int \<Rightarrow> (string \<rightharpoonup> cache_entry) \<Rightarrow> string \<Rightarrow> int option" where
  "cacheLookup t c k =
     (case c k of
        None \<Rightarrow> None
      | Some e \<Rightarrow> if t < ce_storedAt e + ce_ttl e * 1000 then Some (ce_value e) else None)"

section \<open>getStockLevel\<close>

text \<open>The query of lines 46 to 49.\<close>

definition matchesQuery :: "string \<Rightarrow> string option \<Rightarrow> inventory_item \<Rightarrow> bool" where
  "matchesQuery productId warehouseId i =
     (i_productId i = productId \<and> isActive i \<and>
      (if truthy warehouseId then i_warehouseId i = the warehouseId else True))"

text \<open>
  The pipeline of lines 52 to 61: one group with both sums when a document matches, no
  group otherwise.
\<close>

definition aggregate :: "string \<Rightarrow> string option \<Rightarrow> inventory_item list \<Rightarrow> (int \<times> int) option" where
  "aggregate productId warehouseId its =
     (let ms = filter (matchesQuery productId warehouseId) its
      in if ms = [] then None
         else Some (sum_list (map quantity ms), sum_list (map reserved ms)))"

definition getStockLevel :: "env \<Rightarrow> string \<Rightarrow> string option \<Rightarrow> state \<Rightarrow> (error + int) \<times> state" where
  "getStockLevel ev productId warehouseId s =
     (let k = cacheKey productId warehouseId;
          s1 = record_call (CacheGet k) s
      in if fails ev (CacheGet k) then (Inl (IOFailure (CacheGet k)), s1)
         else case cacheLookup (now ev) (cache s1) k of
           Some cachedStock \<Rightarrow> (Inr cachedStock, s1)
         | None \<Rightarrow>
             (let s2 = record_call (Aggregate productId warehouseId) s1
              in if fails ev (Aggregate productId warehouseId)
                 then (Inl (IOFailure (Aggregate productId warehouseId)), s2)
                 else
                   (let available =
                          (case aggregate productId warehouseId (items s2) of
                             Some (totalStock, res) \<Rightarrow> totalStock - res
                           | None \<Rightarrow> 0);
                        s3 = record_call (CacheSet k available CACHE_TTL) s2
                    in if fails ev (CacheSet k available CACHE_TTL)
                       then (Inl (IOFailure (CacheSet k available CACHE_TTL)), s3)
                       else (Inr available,
                             s3\<lparr>cache := (cache s3)(k \<mapsto>
                                  \<lparr>ce_value = available, ce_ttl = CACHE_TTL,
                                   ce_storedAt = now ev\<rparr>)\<rparr>))))"

section \<open>updateStock\<close>

text \<open>The defaults of the schema, for the document an upsert inserts.\<close>

definition newItem :: "env \<Rightarrow> string \<Rightarrow> string \<Rightarrow> inventory_item" where
  "newItem ev productId warehouseId =
     \<lparr>i_id = itemObjectId ev, i_productId = productId, i_warehouseId = warehouseId,
      quantity = 0, reserved = 0, lowStockThreshold = 10, isActive = True,
      history = [], lastUpdated = now ev\<rparr>"

text \<open>
  \<^verbatim>\<open>findOneAndUpdate({productId, warehouseId}, {}, {upsert: true, new: true})\<close>: the
  first matching document, or a new one which joins the collection.
\<close>

definition findOrCreate ::
  "env \<Rightarrow> string \<Rightarrow> string \<Rightarrow> inventory_item list \<Rightarrow> inventory_item \<times> inventory_item list" where
  "findOrCreate ev productId warehouseId its =
     (case find (\<lambda>i. i_productId i = productId \<and> i_warehouseId i = warehouseId) its of
        Some i \<Rightarrow> (i, its)
      | None \<Rightarrow> (newItem ev productId warehouseId, its @ [newItem ev productId warehouseId]))"

text \<open>The switch of lines 93 to 120: the new quantity and the new reserved count.\<close>

definition calculate :: "string \<Rightarrow> int \<Rightarrow> inventory_item \<Rightarrow> error + (int \<times> int)" where
  "calculate opn qty item =
     (if opn = ''ADD'' then Inr (quantity item + qty, reserved item)
      else if opn = ''SUBTRACT'' then
        (if quantity item - reserved item < qty then Inl (Error ''Insufficient stock available'')
         else Inr (quantity item - qty, reserved item))
      else if opn = ''RESERVE'' then
        (if quantity item - reserved item < qty then Inl (Error ''Insufficient stock to reserve'')
         else Inr (quantity item, reserved item + qty))
      else if opn = ''RELEASE'' then
        (if reserved item < qty then Inl (Error ''Cannot release more than reserved'')
         else Inr (quantity item, reserved item - qty))
      else Inl (Error ''Invalid operation''))"

text \<open>\<^verbatim>\<open>findOneAndUpdate({_id}, ...)\<close> changes the first document with that id.\<close>

fun updateById ::
  "string \<Rightarrow> (inventory_item \<Rightarrow> inventory_item) \<Rightarrow> inventory_item list \<Rightarrow> inventory_item list" where
  "updateById oid f [] = []"
| "updateById oid f (i # its) = (if i_id i = oid then f i # its else i # updateById oid f its)"

text \<open>The update document of lines 125 to 138.\<close>

definition applyUpdate :: "env \<Rightarrow> update_stock_dto \<Rightarrow> int \<Rightarrow> int \<Rightarrow> inventory_item \<Rightarrow> inventory_item" where
  "applyUpdate ev dto nq nr i =
     i\<lparr>quantity := nq, reserved := nr, lastUpdated := now ev,
       history := history i @
         [\<lparr>h_operation = operation dto, h_quantity = u_quantity dto, h_reason = reason dto,
           h_referenceId = referenceId dto, h_timestamp = now ev\<rparr>]\<rparr>"

definition auditRecord :: "env \<Rightarrow> update_stock_dto \<Rightarrow> int \<Rightarrow> int \<Rightarrow> stock_update" where
  "auditRecord ev dto nq nr =
     \<lparr>su_productId = u_productId dto, su_warehouseId = u_warehouseId dto,
      su_operation = operation dto, su_quantity = u_quantity dto,
      newQuantity = nq, newReserved = nr, su_reason = reason dto,
      su_referenceId = referenceId dto, su_timestamp = now ev\<rparr>"

text \<open>
  Lines 86 to 155, the writes made in the session. They reach the stores only when the
  transaction commits, so this part returns the collections as the session sees them
  and changes nothing of the state but the call log. The second \<^verbatim>\<open>findOneAndUpdate\<close>
  answers the changed document, or \<^verbatim>\<open>null\<close> when no document has the id.
\<close>

definition ledgerWrites ::
  "env \<Rightarrow> update_stock_dto \<Rightarrow> state \<Rightarrow>
   (error + (inventory_item option \<times> int \<times> int \<times> inventory_item list \<times> stock_update list))
   \<times> state" where
  "ledgerWrites ev dto s =
     (let c1 = FindOneAndUpsert (u_productId dto) (u_warehouseId dto);
          s1 = record_call c1 s
      in if fails ev c1 then (Inl (IOFailure c1), s1)
         else
           (let (item, its) = findOrCreate ev (u_productId dto) (u_warehouseId dto) (items s1)
            in case calculate (operation dto) (u_quantity dto) item of
                 Inl e \<Rightarrow> (Inl e, s1)
               | Inr (nq, nr) \<Rightarrow>
                   (let c2 = FindOneAndUpdateById (i_id item);
                        s2 = record_call c2 s1
                    in if fails ev c2 then (Inl (IOFailure c2), s2)
                       else
                         (let its' = updateById (i_id item) (applyUpdate ev dto nq nr) its;
                              item' = find (\<lambda>i. i_id i = i_id item) its';
                              s3 = record_call StockUpdateSave s2
                          in if fails ev StockUpdateSave
                             then (Inl (IOFailure StockUpdateSave), s3)
                             else (Inr (item', nq, nr, its',
                                        stockUpdates s3 @ [auditRecord ev dto nq nr]),
                                   s3)))))"

text \<open>
  \<^verbatim>\<open>clearStockCache\<close>: every key's \<^verbatim>\<open>del\<close> is started; the whole rejects when one
  of them does.
\<close>

definition cacheKeys :: "string \<Rightarrow> string option \<Rightarrow> string list" where
  "cacheKeys productId warehouseId =
     (''stock:'' @ productId @ '':all'') #
     (if truthy warehouseId then [''stock:'' @ productId @ '':'' @ the warehouseId] else [])"

fun delAll :: "env \<Rightarrow> string list \<Rightarrow> state \<Rightarrow> state" where
  "delAll ev [] s = s"
| "delAll ev (k # ks) s =
     delAll ev ks
       (if fails ev (CacheDel k) then record_call (CacheDel k) s
        else (record_call (CacheDel k) s)\<lparr>cache := (cache s)(k := None)\<rparr>)"

definition clearStockCache :: "env \<Rightarrow> string \<Rightarrow> string option \<Rightarrow> state \<Rightarrow> (error + unit) \<times> state" where
  "clearStockCache ev productId warehouseId s =
     (let ks = cacheKeys productId warehouseId
      in case find (\<lambda>k. fails ev (CacheDel k)) ks of
           Some k \<Rightarrow> (Inl (IOFailure (CacheDel k)), delAll ev ks s)
         | None \<Rightarrow> (Inr (), delAll ev ks s))"

text \<open>The event of lines 165 to 170 and the job of lines 175 to 181.\<close>

definition lowStockEvent :: "update_stock_dto \<Rightarrow> inventory_item \<Rightarrow> int \<Rightarrow> int \<Rightarrow> low_stock_event" where
  "lowStockEvent dto item nq nr =
     \<lparr>e_productId = u_productId dto, e_warehouseId = u_warehouseId dto,
      availableStock = nq - nr, threshold = lowStockThreshold item\<rparr>"

definition queueJob :: "env \<Rightarrow> update_stock_dto \<Rightarrow> queue_job" where
  "queueJob ev dto =
     \<lparr>j_productId = u_productId dto, j_warehouseId = u_warehouseId dto,
      j_operation = operation dto, j_quantity = u_quantity dto, j_timestamp = now ev\<rparr>"

text \<open>
  Lines 157 to 181: the cache, the low-stock event and the queue. Reading the threshold
  of a \<^verbatim>\<open>null\<close> item throws; otherwise the item is handed on, to be returned.
\<close>

definition sideEffects ::
  "env \<Rightarrow> update_stock_dto \<Rightarrow> inventory_item option \<Rightarrow> int \<Rightarrow> int \<Rightarrow> state \<Rightarrow>
   (error + inventory_item) \<times> state" where
  "sideEffects ev dto item nq nr s =
     (case clearStockCache ev (u_productId dto) (Some (u_warehouseId dto)) s of
        (Inl e, s1) \<Rightarrow> (Inl e, s1)
      | (Inr u, s1) \<Rightarrow>
          (case item of
             None \<Rightarrow> (Inl TypeError, s1)
           | Some i \<Rightarrow>
               (let event = lowStockEvent dto i nq nr;
                    low = (nq - nr \<le> lowStockThreshold i);
                    s2 = (if low then record_call (Emit event) s1 else s1)
                in if low \<and> fails ev (Emit event) then (Inl (IOFailure (Emit event)), s2)
                   else
                     (let job = queueJob ev dto;
                          s3 = record_call (QueueAdd job) s2
                      in if fails ev (QueueAdd job) then (Inl (IOFailure (QueueAdd job)), s3)
                         else (Inr i, s3)))))"

text \<open>
  The body of the \<^verbatim>\<open>try\<close> block: the writes, the side effects, then the commit, which
  makes the session's collections the stored ones.
\<close>

definition transaction :: "env \<Rightarrow> update_stock_dto \<Rightarrow> state \<Rightarrow> (error + inventory_item) \<times> state" where
  "transaction ev dto s =
     (case ledgerWrites ev dto s of
        (Inl e, s1) \<Rightarrow> (Inl e, s1)
      | (Inr (item, nq, nr, its, ups), s1) \<Rightarrow>
          (case sideEffects ev dto item nq nr s1 of
             (Inl e, s2) \<Rightarrow> (Inl e, s2)
           | (Inr i, s2) \<Rightarrow>
               (let s3 = record_call CommitTransaction s2
                in if fails ev CommitTransaction then (Inl (IOFailure CommitTransaction), s3)
                   else (Inr i, s3\<lparr>items := its, stockUpdates := ups\<rparr>))))"

text \<open>
  \<^verbatim>\<open>updateStock\<close>: the session is opened before the \<^verbatim>\<open>try\<close>; the \<^verbatim>\<open>catch\<close> aborts
  the transaction and throws the error again; \<^verbatim>\<open>finally\<close> ends the session. The
  logger's lines are left out.
\<close>

definition updateStock :: "env \<Rightarrow> update_stock_dto \<Rightarrow> state \<Rightarrow> (error + inventory_item) \<times> state" where
  "updateStock ev dto s =
     (let s0 = record_call StartSession s
      in if fails ev StartSession then (Inl (IOFailure StartSession), s0)
         else case transaction ev dto s0 of
                (Inl e, s1) \<Rightarrow> (Inl e, record_call EndSession (record_call AbortTransaction s1))
              | (Inr item, s1) \<Rightarrow> (Inr item, record_call EndSession s1))"

section \<open>reserveStock and checkReservationExpiry\<close>

text \<open>The default of the destructuring in line 200.\<close>

definition ttlOf :: "reserve_stock_dto \<Rightarrow> int" where
  "ttlOf dto = (case ttlSeconds dto of None \<Rightarrow> RESERVATION_TTL | Some t \<Rightarrow> t)"

text \<open>The reservation of lines 209 to 215 and the argument of \<^verbatim>\<open>updateStock\<close> in lines 220 to 227.\<close>

definition newReservation :: "env \<Rightarrow> reserve_stock_dto \<Rightarrow> stock_reservation" where
  "newReservation ev dto =
     \<lparr>sr_id = reservationObjectId ev, sr_productId = r_productId dto,
      sr_quantity = r_quantity dto, sr_warehouseId = r_warehouseId dto,
      expiresAt = now ev + ttlOf dto * 1000, status = ''ACTIVE''\<rparr>"

definition reserveOperation :: "env \<Rightarrow> reserve_stock_dto \<Rightarrow> update_stock_dto" where
  "reserveOperation ev dto =
     \<lparr>u_productId = r_productId dto, u_warehouseId = r_warehouseId dto,
      u_quantity = r_quantity dto, operation = ''RESERVE'',
      reason = Some ''Order reservation'', referenceId = Some (reservationObjectId ev)\<rparr>"

definition reserveStock :: "env \<Rightarrow> reserve_stock_dto \<Rightarrow> state \<Rightarrow> (error + string) \<times> state" where
  "reserveStock ev dto s =
     (case getStockLevel ev (r_productId dto) (Some (r_warehouseId dto)) s of
        (Inl e, s1) \<Rightarrow> (Inl e, s1)
      | (Inr available, s1) \<Rightarrow>
          if available < r_quantity dto
          then (Inl (InsufficientStock available (r_quantity dto)), s1)
          else
            (let reservation = newReservation ev dto;
                 c = ReservationSave (sr_id reservation);
                 s2 = record_call c s1
             in if fails ev c then (Inl (IOFailure c), s2)
                else
                  (case updateStock ev (reserveOperation ev dto)
                          (s2\<lparr>reservations := reservations s2 @ [reservation]\<rparr>) of
                     (Inl e, s3) \<Rightarrow> (Inl e, s3)
                   | (Inr item, s3) \<Rightarrow>
                       (Inr (sr_id reservation),
                        record_call (SetTimeout (sr_id reservation) (ttlOf dto * 1000)) s3))))"

text \<open>\<^verbatim>\<open>reservation.save()\<close> on a loaded document writes the first document with its id.\<close>

fun saveReservation :: "stock_reservation \<Rightarrow> stock_reservation list \<Rightarrow> stock_reservation list" where
  "saveReservation r [] = []"
| "saveReservation r (x # xs) = (if sr_id x = sr_id r then r # xs else x # saveReservation r xs)"

definition checkReservationExpiry :: "env \<Rightarrow> string \<Rightarrow> state \<Rightarrow> (error + unit) \<times> state" where
  "checkReservationExpiry ev reservationId s =
     (let s1 = record_call (FindById reservationId) s
      in if fails ev (FindById reservationId) then (Inl (IOFailure (FindById reservationId)), s1)
         else case find (\<lambda>r. sr_id r = reservationId) (reservations s1) of
           None \<Rightarrow> (Inr (), s1)
         | Some reservation \<Rightarrow>
             if status reservation = ''ACTIVE'' then
               (let expired = reservation\<lparr>status := ''EXPIRED''\<rparr>;
                    c = ReservationSave (sr_id expired);
                    s2 = record_call c s1
                in if fails ev c then (Inl (IOFailure c), s2)
                   else
                     (case updateStock ev
                             \<lparr>u_productId = sr_productId expired,
                              u_warehouseId = sr_warehouseId expired,
                              u_quantity = sr_quantity expired, operation = ''RELEASE'',
                              reason = Some ''Reservation expired'',
                              referenceId = Some reservationId\<rparr>
                             (s2\<lparr>reservations := saveReservation expired (reservations s2)\<rparr>) of
                        (Inl e, s3) \<Rightarrow> (Inl e, s3)
                      | (Inr item, s3) \<Rightarrow> (Inr (), s3)))
             else (Inr (), s1))"

section \<open>Notions the properties are stated with\<close>



text \<open>The invariant of a stock record, and a sequence of \<^verbatim>\<open>updateStock\<close> calls.\<close>

definition stockInvariant :: "inventory_item \<Rightarrow> bool" where
  "stockInvariant i = (0 \<le> reserved i \<and> reserved i \<le> quantity i)"

fun applyOperations :: "(env \<times> update_stock_dto) list \<Rightarrow> state \<Rightarrow> state" where
  "applyOperations [] s = s"
| "applyOperations ((ev, dto) # ops) s = applyOperations ops (snd (updateStock ev dto s))"


section \<open>Concrete inputs\<close>

text \<open>An environment in which no call rejects, and scenario B of the specification.\<close>

definition env_ok :: env where
  "env_ok = \<lparr>fails = (\<lambda>c. False), now = 1000, itemObjectId = ''i9'', reservationObjectId = ''r9''\<rparr>"

definition item_B :: inventory_item where
  "item_B = \<lparr>i_id = ''i1'', i_productId = ''P1'', i_warehouseId = ''W1'', quantity = 10,
             reserved = 5, lowStockThreshold = 10, isActive = True, history = [],
             lastUpdated = 0\<rparr>"

definition state_B :: state where
  "state_B = \<lparr>items = [item_B], stockUpdates = [], reservations = [], cache = Map.empty, calls = []\<rparr>"

definition subtract_6 :: update_stock_dto where
  "subtract_6 = \<lparr>u_productId = ''P1'', u_warehouseId = ''W1'', u_quantity = 6,
                 operation = ''SUBTRACT'', reason = Some ''Sale'', referenceId = None\<rparr>"

text \<open>Scenario A: a record with quantity 100 and nothing reserved, and three operations.\<close>

definition add_100 :: update_stock_dto where
  "add_100 = \<lparr>u_productId = ''P1'', u_warehouseId = ''W1'', u_quantity = 100,
              operation = ''ADD'', reason = Some ''Restock'', referenceId = None\<rparr>"

definition reserve_30 :: update_stock_dto where
  "reserve_30 = \<lparr>u_productId = ''P1'', u_warehouseId = ''W1'', u_quantity = 30,
                 operation = ''RESERVE'', reason = None, referenceId = None\<rparr>"

definition release_30 :: update_stock_dto where
  "release_30 = \<lparr>u_productId = ''P1'', u_warehouseId = ''W1'', u_quantity = 30,
                 operation = ''RELEASE'', reason = None, referenceId = None\<rparr>"

definition state_empty :: state where
  "state_empty = \<lparr>items = [], stockUpdates = [], reservations = [], cache = Map.empty, calls = []\<rparr>"

definition item_A :: inventory_item where
  "item_A = \<lparr>i_id = ''i1'', i_productId = ''P1'', i_warehouseId = ''W1'', quantity = 100,
             reserved = 0, lowStockThreshold = 10, isActive = True, history = [],
             lastUpdated = 0\<rparr>"

definition state_A :: state where
  "state_A = \<lparr>items = [item_A], stockUpdates = [], reservations = [], cache = Map.empty, calls = []\<rparr>"

text \<open>A live cache entry holding 0, and a clock 199 seconds after that of \<open>env_ok\<close>.\<close>

definition state_zero_cached :: state where
  "state_zero_cached =
     \<lparr>items = [item_A], stockUpdates = [], reservations = [],
      cache = [''stock:P1:W1'' \<mapsto> \<lparr>ce_value = 0, ce_ttl = 300, ce_storedAt = 900\<rparr>],
      calls = []\<rparr>"

definition env_later :: env where
  "env_later = \<lparr>fails = (\<lambda>c. False), now = 200000, itemObjectId = ''i9'', reservationObjectId = ''r9''\<rparr>"

text \<open>
  Scenario D: two active records of product P1, an inactive one, a record of another
  product, and an empty cache.
\<close>

definition state_D :: state where
  "state_D =
     \<lparr>items =
        [item_A\<lparr>reserved := 20\<rparr>,
         item_A\<lparr>i_id := ''i2'', i_warehouseId := ''W2'', quantity := 50, reserved := 5\<rparr>,
         item_A\<lparr>i_id := ''i3'', i_warehouseId := ''W3'', quantity := 7, isActive := False\<rparr>,
         item_A\<lparr>i_id := ''i4'', i_productId := ''P2'', quantity := 9\<rparr>],
      stockUpdates = [], reservations = [], cache = Map.empty, calls = []\<rparr>"

text \<open>Cached availabilities for two warehouses of product P1.\<close>

definition state_W2_cached :: state where
  "state_W2_cached =
     \<lparr>items = [item_A], stockUpdates = [], reservations = [],
      cache = [''stock:P1:W2'' \<mapsto> \<lparr>ce_value = 45, ce_ttl = 300, ce_storedAt = 900\<rparr>,
               ''stock:P1:W1'' \<mapsto> \<lparr>ce_value = 100, ce_ttl = 300, ce_storedAt = 900\<rparr>],
      calls = []\<rparr>"

text \<open>Scenario C: an ACTIVE reservation of 20 with its hold, and the same one cancelled.\<close>

definition reservation_C :: stock_reservation where
  "reservation_C = \<lparr>sr_id = ''r1'', sr_productId = ''P1'', sr_quantity = 20,
                    sr_warehouseId = ''W1'', expiresAt = 1000, status = ''ACTIVE''\<rparr>"

definition state_C :: state where
  "state_C = \<lparr>items = [item_A\<lparr>reserved := 20\<rparr>], stockUpdates = [],
              reservations = [reservation_C], cache = Map.empty, calls = []\<rparr>"

definition state_C_cancelled :: state where
  "state_C_cancelled = state_C\<lparr>reservations := [reservation_C\<lparr>status := ''CANCELLED''\<rparr>]\<rparr>"

text \<open>
  A request for 30 while the cache still answers 50 for a record whose available stock
  is 5 by now.
\<close>

definition reserve_request :: reserve_stock_dto where
  "reserve_request = \<lparr>r_productId = ''P1'', r_quantity = 30, r_warehouseId = ''W1'',
                      ttlSeconds = None\<rparr>"

definition state_stale :: state where
  "state_stale =
     \<lparr>items = [item_B], stockUpdates = [], reservations = [],
      cache = [''stock:P1:W1'' \<mapsto> \<lparr>ce_value = 50, ce_ttl = 300, ce_storedAt = 900\<rparr>],
      calls = []\<rparr>"

text \<open>An environment in which the queue rejects every job and nothing else fails.\<close>

definition env_queue_down :: env where
  "env_queue_down =
     \<lparr>fails = (\<lambda>c. case c of QueueAdd j \<Rightarrow> True | _ \<Rightarrow> False), now = 1000,
      itemObjectId = ''i9'', reservationObjectId = ''r9''\<rparr>"

section \<open>Auxiliary lemmas\<close>

text \<open>The defining equations, for evaluating the service on concrete inputs.\<close>

lemmas model_defs =
  getStockLevel_def cacheKey_def cacheLookup_def aggregate_def matchesQuery_def
  newItem_def findOrCreate_def calculate_def applyUpdate_def auditRecord_def
  ledgerWrites_def cacheKeys_def clearStockCache_def lowStockEvent_def queueJob_def
  sideEffects_def transaction_def updateStock_def ttlOf_def newReservation_def
  reserveOperation_def reserveStock_def checkReservationExpiry_def record_call_def
  CACHE_TTL_def RESERVATION_TTL_def Let_def

lemmas input_defs =
  env_ok_def env_later_def env_queue_down_def item_A_def item_B_def state_empty_def
  state_A_def state_B_def state_C_def state_C_cancelled_def state_D_def state_stale_def
  state_zero_cached_def state_W2_cached_def reservation_C_def reserve_request_def
  add_100_def subtract_6_def reserve_30_def release_30_def

lemma delAll_items [simp]: "items (delAll ev ks s) = items s"
  by (induction ks arbitrary: s) (auto simp: record_call_def)

lemma delAll_stockUpdates [simp]: "stockUpdates (delAll ev ks s) = stockUpdates s"
  by (induction ks arbitrary: s) (auto simp: record_call_def)

lemma delAll_reservations [simp]: "reservations (delAll ev ks s) = reservations s"
  by (induction ks arbitrary: s) (auto simp: record_call_def)

lemma sideEffects_frame:
  "sideEffects ev dto item nq nr s = (r, s') \<Longrightarrow>
     items s' = items s \<and> stockUpdates s' = stockUpdates s \<and> reservations s' = reservations s"
  by (auto simp: sideEffects_def clearStockCache_def record_call_def Let_def
           split: option.splits if_splits)

lemma ledgerWrites_frame:
  "ledgerWrites ev dto s = (r, s') \<Longrightarrow>
     items s' = items s \<and> stockUpdates s' = stockUpdates s \<and> reservations s' = reservations s
     \<and> cache s' = cache s"
  by (auto simp: ledgerWrites_def record_call_def Let_def
           split: option.splits if_splits prod.splits sum.splits)

lemma sideEffects_Inr_item:
  "sideEffects ev dto item nq nr s = (Inr i, s') \<Longrightarrow> item = Some i"
  by (auto simp: sideEffects_def Let_def split: prod.splits sum.splits option.splits if_splits)

lemma ledgerWrites_Inr:
  "ledgerWrites ev dto s = (Inr (item', nq, nr, its', ups), s') \<Longrightarrow>
     \<exists>it its. findOrCreate ev (u_productId dto) (u_warehouseId dto) (items s) = (it, its) \<and>
        calculate (operation dto) (u_quantity dto) it = Inr (nq, nr) \<and>
        its' = updateById (i_id it) (applyUpdate ev dto nq nr) its \<and>
        find (\<lambda>i. i_id i = i_id it) its' = item' \<and>
        ups = stockUpdates s @ [auditRecord ev dto nq nr]"
  by (auto simp: ledgerWrites_def record_call_def Let_def
           split: option.splits if_splits prod.splits sum.splits)

lemma transaction_Inl:
  "transaction ev dto s = (Inl e, s') \<Longrightarrow>
     items s' = items s \<and> stockUpdates s' = stockUpdates s \<and> reservations s' = reservations s"
  by (auto simp: transaction_def record_call_def Let_def
           split: option.splits if_splits prod.splits sum.splits
           dest!: ledgerWrites_frame sideEffects_frame)

lemma transaction_Inr:
  assumes "transaction ev dto s = (Inr item', s')"
  shows "\<exists>it its nq nr. findOrCreate ev (u_productId dto) (u_warehouseId dto) (items s) = (it, its) \<and>
        calculate (operation dto) (u_quantity dto) it = Inr (nq, nr) \<and>
        items s' = updateById (i_id it) (applyUpdate ev dto nq nr) its \<and>
        find (\<lambda>i. i_id i = i_id it) (items s') = Some item' \<and>
        stockUpdates s' = stockUpdates s @ [auditRecord ev dto nq nr] \<and>
        reservations s' = reservations s"
proof -
  from assms obtain item nq nr its ups s1 s2 where
    lw: "ledgerWrites ev dto s = (Inr (item, nq, nr, its, ups), s1)" and
    se: "sideEffects ev dto item nq nr s1 = (Inr item', s2)" and
    cm: "\<not> fails ev CommitTransaction" and
    res: "s' = (record_call CommitTransaction s2)\<lparr>items := its, stockUpdates := ups\<rparr>"
    by (auto simp: transaction_def Let_def split: prod.splits sum.splits if_splits)
  from sideEffects_Inr_item [OF se] have item: "item = Some item'" .
  from ledgerWrites_Inr [OF lw] obtain it its0 where
    fc: "findOrCreate ev (u_productId dto) (u_warehouseId dto) (items s) = (it, its0)" and
    ca: "calculate (operation dto) (u_quantity dto) it = Inr (nq, nr)" and
    up: "its = updateById (i_id it) (applyUpdate ev dto nq nr) its0" and
    fi: "find (\<lambda>i. i_id i = i_id it) its = Some item'" and
    au: "ups = stockUpdates s @ [auditRecord ev dto nq nr]"
    unfolding item by blast
  have "reservations s' = reservations s"
    using ledgerWrites_frame [OF lw] sideEffects_frame [OF se] res
    by (simp add: record_call_def)
  with fc ca up fi au res show ?thesis
    by (simp add: record_call_def)
qed

lemma updateStock_Inl:
  "updateStock ev dto s = (Inl e, s') \<Longrightarrow>
     items s' = items s \<and> stockUpdates s' = stockUpdates s \<and> reservations s' = reservations s"
  by (auto simp: updateStock_def record_call_def Let_def
           split: if_splits prod.splits sum.splits dest!: transaction_Inl)

lemma updateStock_Inr:
  assumes "updateStock ev dto s = (Inr item', s')"
  shows "\<exists>it its nq nr. findOrCreate ev (u_productId dto) (u_warehouseId dto) (items s) = (it, its) \<and>
        calculate (operation dto) (u_quantity dto) it = Inr (nq, nr) \<and>
        items s' = updateById (i_id it) (applyUpdate ev dto nq nr) its \<and>
        find (\<lambda>i. i_id i = i_id it) (items s') = Some item' \<and>
        stockUpdates s' = stockUpdates s @ [auditRecord ev dto nq nr] \<and>
        reservations s' = reservations s"
proof -
  from assms obtain s1 where
    tr: "transaction ev dto (record_call StartSession s) = (Inr item', s1)" and
    s': "s' = record_call EndSession s1"
    by (auto simp: updateStock_def Let_def split: prod.splits sum.splits if_splits)
  from transaction_Inr [OF tr] s' show ?thesis
    by (simp add: record_call_def)
qed


lemma findOrCreate_cases:
  "findOrCreate ev p w its = (it, its') \<Longrightarrow>
     it \<in> set its' \<and> (its' = its \<or> its' = its @ [newItem ev p w])"
  by (auto simp: findOrCreate_def split: option.splits dest: find_Some_iff [THEN iffD1])

lemma set_updateById: "x \<in> set (updateById oid f its) \<Longrightarrow> x \<in> set its \<or> x \<in> f ` set its"
  by (induction its) (auto split: if_splits)

lemma calculate_invariant:
  "stockInvariant it \<Longrightarrow> 0 < qty \<Longrightarrow> calculate opn qty it = Inr (nq, nr) \<Longrightarrow> 0 \<le> nr \<and> nr \<le> nq"
  by (auto simp: calculate_def stockInvariant_def split: if_splits)

lemma updateStock_invariant:
  assumes inv: "\<forall>i \<in> set (items s). stockInvariant i" and pos: "0 < u_quantity dto"
  shows "\<forall>i \<in> set (items (snd (updateStock ev dto s))). stockInvariant i"
proof (cases "updateStock ev dto s")
  case (Pair r s')
  show ?thesis
  proof (cases r)
    case (Inl e)
    with Pair updateStock_Inl [of ev dto s e s'] inv show ?thesis by simp
  next
    case (Inr item')
    with Pair updateStock_Inr [of ev dto s item' s'] obtain it its nq nr where
      fc: "findOrCreate ev (u_productId dto) (u_warehouseId dto) (items s) = (it, its)" and
      ca: "calculate (operation dto) (u_quantity dto) it = Inr (nq, nr)" and
      up: "items s' = updateById (i_id it) (applyUpdate ev dto nq nr) its"
      by blast
    from findOrCreate_cases [OF fc] inv have all: "\<forall>i \<in> set its. stockInvariant i"
      by (auto simp: newItem_def stockInvariant_def)
    with findOrCreate_cases [OF fc] have "stockInvariant it" by blast
    from calculate_invariant [OF this pos ca] have new: "0 \<le> nr \<and> nr \<le> nq" .
    have "stockInvariant i" if "i \<in> set (items s')" for i
      using set_updateById [OF that [unfolded up]] all new
      by (auto simp: applyUpdate_def stockInvariant_def)
    with Pair show ?thesis by simp
  qed
qed

lemma applyOperations_invariant:
  "\<forall>i \<in> set (items s). stockInvariant i \<Longrightarrow> \<forall>(ev, dto) \<in> set ops. 0 < u_quantity dto \<Longrightarrow>
   \<forall>i \<in> set (items (applyOperations ops s)). stockInvariant i"
proof (induction ops arbitrary: s)
  case Nil
  then show ?case by simp
next
  case (Cons a ops)
  obtain ev dto where a: "a = (ev, dto)" by (cases a)
  with Cons.prems have "0 < u_quantity dto" by simp
  from updateStock_invariant [OF Cons.prems(1) this]
  have "\<forall>i \<in> set (items (snd (updateStock ev dto s))). stockInvariant i" .
  from Cons.IH [OF this] Cons.prems(2) a show ?case by simp
qed


lemma applyUpdate_id [simp]: "i_id (applyUpdate ev dto nq nr i) = i_id i"
  by (simp add: applyUpdate_def)





















lemma updateStock_reservations:
  "reservations (snd (updateStock ev dto s)) = reservations s"
proof (cases "updateStock ev dto s")
  case (Pair r s')
  then show ?thesis
    using updateStock_Inl [of ev dto s _ s'] updateStock_Inr [of ev dto s _ s']
    by (cases r) auto
qed

lemma getStockLevel_frame:
  "getStockLevel ev p w s = (r, s') \<Longrightarrow>
     items s' = items s \<and> stockUpdates s' = stockUpdates s \<and> reservations s' = reservations s"
  by (auto simp: getStockLevel_def record_call_def Let_def split: option.splits if_splits)

lemma updateStock_Inl_fst:
  "fst (updateStock ev dto s) = Inl e \<Longrightarrow>
     items (snd (updateStock ev dto s)) = items s \<and>
     stockUpdates (snd (updateStock ev dto s)) = stockUpdates s"
  using updateStock_Inl [of ev dto s e "snd (updateStock ev dto s)"]
  by (cases "updateStock ev dto s") simp



section \<open>The claims\<close>

text \<open>
  C1. \<^verbatim>\<open>reserveStock\<close> has no rollback: the counterexample after the theorem leaves an
  ACTIVE reservation without a hold. What holds is this. When the pre-check of
  \<^verbatim>\<open>reserveStock\<close> passes and the reservation has been saved as ACTIVE, but the RESERVE
  through \<^verbatim>\<open>updateStock\<close> then fails, the error reaches the caller and nothing is
  rolled back: the new reservation stays in the reservation store with status ACTIVE, the
  inventory items are those from before the call (no hold exists), and no expiry timer
  is armed.
\<close>

theorem C1_failed_reserve_keeps_reservation:
  assumes pre: "getStockLevel ev (r_productId dto) (Some (r_warehouseId dto)) s = (Inr available, s1)"
      and enough: "\<not> available < r_quantity dto"
      and saved: "\<not> fails ev (ReservationSave (reservationObjectId ev))"
      and s2: "s2 = s1\<lparr>calls := calls s1 @ [ReservationSave (reservationObjectId ev)],
                       reservations := reservations s1 @ [newReservation ev dto]\<rparr>"
      and failed: "fst (updateStock ev (reserveOperation ev dto) s2) = Inl e"
  shows "reserveStock ev dto s = (Inl e, snd (updateStock ev (reserveOperation ev dto) s2)) \<and>
         reservations (snd (reserveStock ev dto s)) = reservations s @ [newReservation ev dto] \<and>
         status (newReservation ev dto) = ''ACTIVE'' \<and>
         items (snd (reserveStock ev dto s)) = items s \<and>
         calls (snd (reserveStock ev dto s)) = calls (snd (updateStock ev (reserveOperation ev dto) s2))"
proof -
  have run: "reserveStock ev dto s = (Inl e, snd (updateStock ev (reserveOperation ev dto) s2))"
    using pre enough saved failed
    by (cases "updateStock ev (reserveOperation ev dto) s2")
       (simp add: reserveStock_def record_call_def Let_def s2 newReservation_def)
  have "reservations (snd (updateStock ev (reserveOperation ev dto) s2)) =
          reservations s @ [newReservation ev dto]"
    using getStockLevel_frame [OF pre] by (simp add: updateStock_reservations s2)
  moreover have "items (snd (updateStock ev (reserveOperation ev dto) s2)) = items s"
    using updateStock_Inl_fst [OF failed] getStockLevel_frame [OF pre] by (simp add: s2)
  ultimately show ?thesis
    using run by (simp add: newReservation_def)
qed

theorem C1_orphaned_active_reservation:
  "fst (reserveStock env_ok reserve_request state_stale) = Inl (Error ''Insufficient stock to reserve'') \<and>
   reservations (snd (reserveStock env_ok reserve_request state_stale)) =
     [\<lparr>sr_id = ''r9'', sr_productId = ''P1'', sr_quantity = 30, sr_warehouseId = ''W1'',
       expiresAt = 1801000, status = ''ACTIVE''\<rparr>] \<and>
   items (snd (reserveStock env_ok reserve_request state_stale)) = [item_B] \<and>
   reserved item_B = 5"
  by (simp add: model_defs input_defs)

theorem C1_failed_reserve_keeps_reservation_witness:
  "getStockLevel env_ok (r_productId reserve_request) (Some (r_warehouseId reserve_request)) state_stale =
     (Inr 50, state_stale\<lparr>calls := [CacheGet ''stock:P1:W1'']\<rparr>) \<and>
   \<not> 50 < r_quantity reserve_request \<and>
   \<not> fails env_ok (ReservationSave (reservationObjectId env_ok)) \<and>
   fst (reserveStock env_ok reserve_request state_stale) = Inl (Error ''Insufficient stock to reserve'') \<and>
   map status (reservations (snd (reserveStock env_ok reserve_request state_stale))) = [''ACTIVE''] \<and>
   items (snd (reserveStock env_ok reserve_request state_stale)) = items state_stale \<and>
   calls (snd (reserveStock env_ok reserve_request state_stale)) =
     [CacheGet ''stock:P1:W1'', ReservationSave ''r9'', StartSession,
      FindOneAndUpsert ''P1'' ''W1'', AbortTransaction, EndSession]"
proof -
  have h: "getStockLevel env_ok (r_productId reserve_request) (Some (r_warehouseId reserve_request))
             state_stale = (Inr 50, state_stale\<lparr>calls := [CacheGet ''stock:P1:W1'']\<rparr>)"
    "\<not> 50 < r_quantity reserve_request"
    "\<not> fails env_ok (ReservationSave (reservationObjectId env_ok))"
    by (simp_all add: model_defs input_defs)
  have f: "fst (updateStock env_ok (reserveOperation env_ok reserve_request)
                 (state_stale\<lparr>calls := [CacheGet ''stock:P1:W1''],
                    calls := calls (state_stale\<lparr>calls := [CacheGet ''stock:P1:W1'']\<rparr>) @
                             [ReservationSave (reservationObjectId env_ok)],
                    reservations := reservations (state_stale\<lparr>calls := [CacheGet ''stock:P1:W1'']\<rparr>) @
                                    [newReservation env_ok reserve_request]\<rparr>)) =
             Inl (Error ''Insufficient stock to reserve'')"
    by (simp add: model_defs input_defs)
  from C1_failed_reserve_keeps_reservation [OF h refl f] h show ?thesis
    by (simp add: model_defs input_defs)
qed






text \<open>
  C4. Starting from a store whose records are all zeroed (the empty store, in which the
  first \<^verbatim>\<open>updateStock\<close> upserts a zeroed record, is one), after any sequence of
  \<^verbatim>\<open>updateStock\<close> calls with positive amounts, whatever their kinds and whichever of
  their collaborator calls reject, every stored record has \<open>0 \<le> reserved \<le> quantity\<close>,
  so that \<open>quantity - reserved\<close> is not negative.
\<close>

theorem C4_invariant_of_reachable_records:
  assumes fresh: "\<forall>i \<in> set (items s). quantity i = 0 \<and> reserved i = 0"
      and pos: "\<forall>(ev, dto) \<in> set ops. 0 < u_quantity dto"
  shows "\<forall>i \<in> set (items (applyOperations ops s)).
           0 \<le> reserved i \<and> reserved i \<le> quantity i \<and> 0 \<le> quantity i - reserved i"
proof -
  from fresh have "\<forall>i \<in> set (items s). stockInvariant i"
    by (simp add: stockInvariant_def)
  from applyOperations_invariant [OF this pos] show ?thesis
    by (simp add: stockInvariant_def)
qed

theorem C4_invariant_of_reachable_records_witness:
  "items state_empty = [] \<and>
   map (\<lambda>(ev, dto). u_quantity dto) [(env_ok, add_100), (env_ok, reserve_30)] = [100, 30] \<and>
   map (\<lambda>i. (quantity i, reserved i))
     (items (applyOperations [(env_ok, add_100), (env_ok, reserve_30)] state_empty)) = [(100, 30)] \<and>
   list_all (\<lambda>i. 0 \<le> reserved i \<and> reserved i \<le> quantity i \<and> 0 \<le> quantity i - reserved i)
     (items (applyOperations [(env_ok, add_100), (env_ok, reserve_30)] state_empty))"
proof -
  have h: "\<forall>i \<in> set (items state_empty). quantity i = 0 \<and> reserved i = 0"
    "\<forall>(ev, dto) \<in> set [(env_ok, add_100), (env_ok, reserve_30)]. 0 < u_quantity dto"
    by (simp_all add: input_defs)
  from C4_invariant_of_reachable_records [OF h] show ?thesis
    by (simp add: list_all_iff model_defs input_defs)
qed

text \<open>
  C5. Whenever \<^verbatim>\<open>updateStock\<close> fails, whatever the reason, the caller gets the error
  and the stored inventory items (their counters and their histories) and the stored
  audit documents are those from before the call. Scenario B, SUBTRACT 6 on quantity 10
  and reserved 5, is the witness.
\<close>

theorem C5_failure_leaves_ledger_unchanged:
  assumes "fst (updateStock ev dto s) = Inl e"
  shows "items (snd (updateStock ev dto s)) = items s \<and>
         stockUpdates (snd (updateStock ev dto s)) = stockUpdates s"
  using assms updateStock_Inl [of ev dto s e "snd (updateStock ev dto s)"]
  by (cases "updateStock ev dto s") simp

theorem C5_failure_leaves_ledger_unchanged_witness:
  "fst (updateStock env_ok subtract_6 state_B) = Inl (Error ''Insufficient stock available'') \<and>
   items (snd (updateStock env_ok subtract_6 state_B)) = items state_B \<and>
   stockUpdates (snd (updateStock env_ok subtract_6 state_B)) = stockUpdates state_B"
proof -
  have h: "fst (updateStock env_ok subtract_6 state_B) = Inl (Error ''Insufficient stock available'')"
    by (simp add: model_defs input_defs)
  from C5_failure_leaves_ledger_unchanged [OF h] h show ?thesis by simp
qed

text \<open>
  C6. On a cache miss, with no call rejecting, \<^verbatim>\<open>getStockLevel\<close> returns the sum of the
  quantities minus the sum of the reserved counts of the active records of the product
  (of the warehouse too when one is given and not empty), 0 when there is none, and
  stores it under the key with a time-to-live of 300. A second call for the same key
  before 300 seconds have passed, with the cache \<^verbatim>\<open>get\<close> not rejecting, returns the same
  value and makes no call but that \<^verbatim>\<open>get\<close>: the store is not read.
\<close>

theorem C6_read_through:
  assumes nf: "\<forall>c. \<not> fails ev c"
      and miss: "cacheLookup (now ev) (cache s) (cacheKey productId warehouseId) = None"
      and ms: "ms = filter (\<lambda>i. i_productId i = productId \<and> isActive i \<and>
                               (truthy warehouseId \<longrightarrow> Some (i_warehouseId i) = warehouseId))
                           (items s)"
      and v: "v = sum_list (map quantity ms) - sum_list (map reserved ms)"
      and s1: "s1 = snd (getStockLevel ev productId warehouseId s)"
      and get: "\<not> fails ev' (CacheGet (cacheKey productId warehouseId))"
      and within: "now ev \<le> now ev'" "now ev' < now ev + 300 * 1000"
  shows "fst (getStockLevel ev productId warehouseId s) = Inr v \<and>
         cache s1 (cacheKey productId warehouseId) =
           Some \<lparr>ce_value = v, ce_ttl = 300, ce_storedAt = now ev\<rparr> \<and>
         calls s1 = calls s @ [CacheGet (cacheKey productId warehouseId),
                               Aggregate productId warehouseId,
                               CacheSet (cacheKey productId warehouseId) v 300] \<and>
         getStockLevel ev' productId warehouseId s1 =
           (Inr v, s1\<lparr>calls := calls s1 @ [CacheGet (cacheKey productId warehouseId)]\<rparr>)"
proof -
  have flt: "filter (matchesQuery productId warehouseId) (items s) = ms"
    unfolding ms by (cases warehouseId) (auto simp: matchesQuery_def intro!: filter_cong)
  have av: "(case aggregate productId warehouseId (items s) of
               Some (totalStock, res) \<Rightarrow> totalStock - res | None \<Rightarrow> 0) = v"
    by (simp add: aggregate_def flt v Let_def)
  let ?k = "cacheKey productId warehouseId"
  have first: "getStockLevel ev productId warehouseId s =
      (Inr v, s\<lparr>calls := calls s @ [CacheGet ?k, Aggregate productId warehouseId, CacheSet ?k v 300],
                 cache := (cache s)(?k \<mapsto> \<lparr>ce_value = v, ce_ttl = 300, ce_storedAt = now ev\<rparr>)\<rparr>)"
    using nf miss av
    by (simp add: getStockLevel_def record_call_def Let_def CACHE_TTL_def)
  have hit: "cacheLookup (now ev') (cache s1) ?k = Some v"
    using within by (simp add: s1 first cacheLookup_def)
  from first hit get show ?thesis
    by (simp add: s1 getStockLevel_def [of ev'] record_call_def Let_def)
qed

theorem C6_read_through_witness:
  "(\<forall>c. \<not> fails env_ok c) \<and>
   cacheLookup (now env_ok) (cache state_D) (cacheKey ''P1'' None) = None \<and>
   \<not> fails env_later (CacheGet (cacheKey ''P1'' None)) \<and>
   now env_ok \<le> now env_later \<and> now env_later < now env_ok + 300 * 1000 \<and>
   fst (getStockLevel env_ok ''P1'' None state_D) = Inr 125 \<and>
   fst (getStockLevel env_later ''P1'' None (snd (getStockLevel env_ok ''P1'' None state_D))) = Inr 125 \<and>
   calls (snd (getStockLevel env_later ''P1'' None (snd (getStockLevel env_ok ''P1'' None state_D)))) =
     [CacheGet ''stock:P1:all'', Aggregate ''P1'' None, CacheSet ''stock:P1:all'' 125 300,
      CacheGet ''stock:P1:all'']"
proof -
  have h: "\<forall>c. \<not> fails env_ok c"
    "cacheLookup (now env_ok) (cache state_D) (cacheKey ''P1'' None) = None"
    and g: "\<not> fails env_later (CacheGet (cacheKey ''P1'' None))"
    "now env_ok \<le> now env_later" "now env_later < now env_ok + 300 * 1000"
    by (simp_all add: model_defs input_defs)
  from C6_read_through [OF h refl refl refl g] h g show ?thesis
    by (simp add: state_D_def item_A_def cacheKey_def)
qed








text \<open>
  C10. A cached value of 0 is a hit: when the cache manager answers 0 for the key,
  \<^verbatim>\<open>getStockLevel\<close> returns 0 and its only call is that \<^verbatim>\<open>get\<close>; the store is not
  read and nothing is written to the cache.
\<close>

theorem C10_cached_zero_is_a_hit:
  assumes "\<not> fails ev (CacheGet (cacheKey productId warehouseId))"
      and "cacheLookup (now ev) (cache s) (cacheKey productId warehouseId) = Some 0"
  shows "getStockLevel ev productId warehouseId s =
           (Inr 0, s\<lparr>calls := calls s @ [CacheGet (cacheKey productId warehouseId)]\<rparr>)"
  using assms by (simp add: getStockLevel_def record_call_def Let_def)

theorem C10_cached_zero_is_a_hit_witness:
  "\<not> fails env_ok (CacheGet (cacheKey ''P1'' (Some ''W1''))) \<and>
   cacheLookup (now env_ok) (cache state_zero_cached) (cacheKey ''P1'' (Some ''W1'')) = Some 0 \<and>
   aggregate ''P1'' (Some ''W1'') (items state_zero_cached) = Some (100, 0) \<and>
   getStockLevel env_ok ''P1'' (Some ''W1'') state_zero_cached =
     (Inr 0, state_zero_cached\<lparr>calls := [CacheGet ''stock:P1:W1'']\<rparr>)"
proof -
  have h: "\<not> fails env_ok (CacheGet (cacheKey ''P1'' (Some ''W1'')))"
    "cacheLookup (now env_ok) (cache state_zero_cached) (cacheKey ''P1'' (Some ''W1'')) = Some 0"
    by (simp_all add: model_defs input_defs)
  from C10_cached_zero_is_a_hit [OF h] h show ?thesis
    by (simp add: model_defs input_defs)
qed

end
